theory Spec2Isabelle
  imports Complex_Main
begin

section \<open>Values decoded from the provider's JSON\<close>

text \<open>
  The program handles the values that \<^verbatim>\<open>r.json()\<close> returns: \<^verbatim>\<open>None\<close>, booleans,
  integers, floats, strings, lists and dictionaries with string keys. A float is kept
  as the rational it denotes, or as one of the three non-finite values the decoder also
  accepts. A dictionary is an association list in insertion order; a key is looked up
  at its first entry (a decoded dictionary has every key once).
  Strings are byte lists holding the UTF-8 encoding of the Python text.
\<close>

datatype pyfloat = Finite rat | PosInf | NegInf | NaN

datatype json =
    JNull
  | JBool bool
  | JInt int
  | JFloat pyfloat
  | JStr string
  | JList "json list"
  | JObj "(string \<times> json) list"

type_synonym dict = "(string \<times> json) list"

text \<open>
  An exception is kept as the \<^verbatim>\<open>except\<close> clause of \<^verbatim>\<open>SearchWorker.run\<close> that catches
  it, together with the text \<^verbatim>\<open>str(e)\<close>: \<open>RequestException\<close> stands for
  \<^verbatim>\<open>requests.exceptions.RequestException\<close> and its subclasses, the other constructors for
  the built-in exceptions the code can raise, all caught by \<^verbatim>\<open>except Exception\<close>.
\<close>

datatype py_exc =
    RequestException string
  | AttributeError string
  | TypeError string
  | OtherException string

fun str_exc :: "py_exc \<Rightarrow> string" where
  "str_exc (RequestException m) = m"
| "str_exc (AttributeError m) = m"
| "str_exc (TypeError m) = m"
| "str_exc (OtherException m) = m"

fun is_request_exception :: "py_exc \<Rightarrow> bool" where
  "is_request_exception (RequestException m) = True"
| "is_request_exception (AttributeError m) = False"
| "is_request_exception (TypeError m) = False"
| "is_request_exception (OtherException m) = False"

text \<open>Python's truth value of a decoded value, as \<^verbatim>\<open>or\<close> and \<^verbatim>\<open>if\<close> test it.\<close>

fun truthy :: "json \<Rightarrow> bool" where
  "truthy JNull = False"
| "truthy (JBool b) = b"
| "truthy (JInt i) = (i \<noteq> 0)"
| "truthy (JFloat (Finite q)) = (q \<noteq> 0)"
| "truthy (JFloat PosInf) = True"
| "truthy (JFloat NegInf) = True"
| "truthy (JFloat NaN) = True"
| "truthy (JStr s) = (s \<noteq> [])"
| "truthy (JList xs) = (xs \<noteq> [])"
| "truthy (JObj kvs) = (kvs \<noteq> [])"

text \<open>\<^verbatim>\<open>a or b\<close>: the first operand when it is truthy, the second otherwise.\<close>

definition py_or :: "json \<Rightarrow> json \<Rightarrow> json" where
  "py_or a b = (if truthy a then a else b)"

fun type_name :: "json \<Rightarrow> string" where
  "type_name JNull = ''NoneType''"
| "type_name (JBool b) = ''bool''"
| "type_name (JInt i) = ''int''"
| "type_name (JFloat f) = ''float''"
| "type_name (JStr s) = ''str''"
| "type_name (JList xs) = ''list''"
| "type_name (JObj kvs) = ''dict''"

text \<open>\<^verbatim>\<open>d.get(k)\<close> and \<^verbatim>\<open>d.get(k, default)\<close> on a dictionary.\<close>

definition dict_get_default :: "dict \<Rightarrow> string \<Rightarrow> json \<Rightarrow> json" where
  "dict_get_default d k dflt = (case map_of d k of None \<Rightarrow> dflt | Some v \<Rightarrow> v)"

definition dict_get :: "dict \<Rightarrow> string \<Rightarrow> json" where
  "dict_get d k = dict_get_default d k JNull"

text \<open>
  Reading the attribute \<^verbatim>\<open>get\<close> of a value: only a dictionary has it, every other
  decoded value raises \<^verbatim>\<open>AttributeError\<close>.
\<close>

definition no_attribute_get :: "json \<Rightarrow> py_exc" where
  "no_attribute_get v =
     AttributeError ([CHR 0x27] @ type_name v @ [CHR 0x27] @ '' object has no attribute ''
                     @ [CHR 0x27] @ ''get'' @ [CHR 0x27])"

fun attr_get :: "json \<Rightarrow> py_exc + dict" where
  "attr_get (JObj d) = Inr d"
| "attr_get v = Inl (no_attribute_get v)"

section \<open>extract_kcal\<close>

text \<open>
  \<^verbatim>\<open>
  def extract_kcal(nutriments: dict) -> dict:
      get = nutriments.get
      data = {
          "kcal_100g": get("energy-kcal_100g") or get("energy-kcal_value"),
          "protein_100g": get("proteins_100g"),
          "fat_100g": get("fat_100g"),
          "carbs_100g": get("carbohydrates_100g"),
          "kcal_serving": get("energy-kcal_serving"),
          "protein_serving": get("proteins_serving"),
          "fat_serving": get("fat_serving"),
          "carbs_serving": get("carbohydrates_serving"),
      }
      return {k: v for k, v in data.items() if v is not None}
  \<close>
\<close>

definition extract_kcal_data :: "dict \<Rightarrow> dict" where
  "extract_kcal_data n =
     [(''kcal_100g'', py_or (dict_get n ''energy-kcal_100g'') (dict_get n ''energy-kcal_value'')),
      (''protein_100g'', dict_get n ''proteins_100g''),
      (''fat_100g'', dict_get n ''fat_100g''),
      (''carbs_100g'', dict_get n ''carbohydrates_100g''),
      (''kcal_serving'', dict_get n ''energy-kcal_serving''),
      (''protein_serving'', dict_get n ''proteins_serving''),
      (''fat_serving'', dict_get n ''fat_serving''),
      (''carbs_serving'', dict_get n ''carbohydrates_serving'')]"

definition extract_kcal :: "json \<Rightarrow> py_exc + dict" where
  "extract_kcal nutriments =
     (case attr_get nutriments of
        Inl e \<Rightarrow> Inl e
      | Inr n \<Rightarrow> Inr (filter (\<lambda>(k, v). v \<noteq> JNull) (extract_kcal_data n)))"

text \<open>
  The seven output fields that are read from one provider key each, as pairs of the
  output name and the provider's name.
\<close>

definition direct_fields :: "(string \<times> string) list" where
  "direct_fields =
     [(''protein_100g'', ''proteins_100g''),
      (''fat_100g'', ''fat_100g''),
      (''carbs_100g'', ''carbohydrates_100g''),
      (''kcal_serving'', ''energy-kcal_serving''),
      (''protein_serving'', ''proteins_serving''),
      (''fat_serving'', ''fat_serving''),
      (''carbs_serving'', ''carbohydrates_serving'')]"

text \<open>The field of an output record, \<open>None\<close> when the record does not contain it.\<close>

definition field :: "py_exc + dict \<Rightarrow> string \<Rightarrow> json option" where
  "field r k = (case r of Inl e \<Rightarrow> None | Inr d \<Rightarrow> map_of d k)"

text \<open>A provider key that exists with a non-null value, and that value.\<close>

definition present :: "dict \<Rightarrow> string \<Rightarrow> json option" where
  "present n k = (case map_of n k of None \<Rightarrow> None | Some v \<Rightarrow> if v = JNull then None else Some v)"

section \<open>The two HTTP calls\<close>

text \<open>
  A request as \<^verbatim>\<open>requests.get(url, headers=HEADERS, params=params, timeout=20)\<close>
  receives it. A query parameter is a string or, for \<^verbatim>\<open>page_size\<close>, an integer.
\<close>

datatype pval = PStr string | PInt int

record request =
  url :: string
  headers :: "(string \<times> string) list"
  params :: "(string \<times> pval) list"
  timeout :: nat

text \<open>
  The response object of the library, as far as the program uses it: its status code,
  the text of the \<^verbatim>\<open>HTTPError\<close> that \<^verbatim>\<open>raise_for_status\<close> builds, and the
  outcome of decoding its body: the decoded value, or the text of the decoding error
  when the body is not valid JSON. The network is a function from the request to what
  \<^verbatim>\<open>requests.get\<close> does with it: it raises (a transport failure such as a timeout is
  a \<open>RequestException\<close>) or returns a response.
\<close>

record response =
  status_code :: int
  http_error :: string
  json_result :: "string + json"

type_synonym http = "request \<Rightarrow> py_exc + response"

definition BASE :: string where
  "BASE = ''https://world.openfoodfacts.org''"

definition HEADERS :: "(string \<times> string) list" where
  "HEADERS = [(''User-Agent'', ''Darcons-Trade-CalorieFetcher/1.0 (+https://darcons-trade.example)'')]"

text \<open>Every call of \<^verbatim>\<open>requests.get\<close> is appended to a log of the requests sent.\<close>

definition requests_get :: "http \<Rightarrow> request \<Rightarrow> request list \<Rightarrow> (py_exc + response) \<times> request list" where
  "requests_get net rq sent = (net rq, sent @ [rq])"

text \<open>
  \<^verbatim>\<open>Response.raise_for_status\<close> of the requests library (not code of this repository):
  it raises \<^verbatim>\<open>HTTPError\<close>, a \<open>RequestException\<close>, for the client-error and server-error
  status codes 400 to 599, and returns for every other status code.
\<close>

definition raise_for_status :: "response \<Rightarrow> py_exc option" where
  "raise_for_status r =
     (if 400 \<le> status_code r \<and> status_code r < 600
      then Some (RequestException (http_error r)) else None)"

text \<open>
  \<^verbatim>\<open>Response.json\<close> of the requests library (not code of this repository): it returns
  the decoded body, and on a body that is not valid JSON it raises
  \<^verbatim>\<open>requests.exceptions.JSONDecodeError\<close>, which is a \<open>RequestException\<close>.
\<close>

definition response_json :: "response \<Rightarrow> py_exc + json" where
  "response_json r =
     (case json_result r of
        Inl m \<Rightarrow> Inl (RequestException m)
      | Inr v \<Rightarrow> Inr v)"

text \<open>
  \<^verbatim>\<open>
  def get_product_by_barcode(barcode: str, fields=None, lang="ru", country="ru") -> dict:
      if fields is None:
          fields = "code,product_name,nutriments,brands,quantity,serving_size,language,lang,lc"
      url = f"{BASE}/api/v2/product/{barcode}"
      params = {"fields": fields, "lc": lang, "cc": country}
      r = requests.get(url, headers=HEADERS, params=params, timeout=20)
      r.raise_for_status()
      return r.json()
  \<close>
\<close>

definition get_product_by_barcode ::
  "http \<Rightarrow> string \<Rightarrow> string option \<Rightarrow> string \<Rightarrow> string \<Rightarrow> request list
     \<Rightarrow> (py_exc + json) \<times> request list" where
  "get_product_by_barcode net barcode flds lang country sent =
     (let flds' = (case flds of
                       None \<Rightarrow> ''code,product_name,nutriments,brands,quantity,serving_size,language,lang,lc''
                     | Some f \<Rightarrow> f);
          url' = BASE @ ''/api/v2/product/'' @ barcode;
          params' = [(''fields'', PStr flds'), (''lc'', PStr lang), (''cc'', PStr country)];
          (r, sent') = requests_get net
                        \<lparr>url = url', headers = HEADERS, params = params', timeout = 20\<rparr> sent
      in case r of
           Inl e \<Rightarrow> (Inl e, sent')
         | Inr resp \<Rightarrow>
             (case raise_for_status resp of
                Some e \<Rightarrow> (Inl e, sent')
              | None \<Rightarrow> (response_json resp, sent')))"

text \<open>
  \<^verbatim>\<open>
  def search_products(query: str, page_size=5, fields=None, lang="ru", country="ru") -> dict:
      if fields is None:
          fields = "code,product_name,brands,nutriments,quantity,serving_size,ecoscore_grade"
      url = f"{BASE}/api/v2/search"
      params = {"search_terms": query, "fields": fields, "page_size": page_size,
                "lc": lang, "cc": country}
      r = requests.get(url, headers=HEADERS, params=params, timeout=20)
      r.raise_for_status()
      return r.json()
  \<close>
\<close>

definition search_products ::
  "http \<Rightarrow> string \<Rightarrow> int \<Rightarrow> string option \<Rightarrow> string \<Rightarrow> string \<Rightarrow> request list
     \<Rightarrow> (py_exc + json) \<times> request list" where
  "search_products net query page_size flds lang country sent =
     (let flds' = (case flds of
                       None \<Rightarrow> ''code,product_name,brands,nutriments,quantity,serving_size,ecoscore_grade''
                     | Some f \<Rightarrow> f);
          url' = BASE @ ''/api/v2/search'';
          params' = [(''search_terms'', PStr query), (''fields'', PStr flds'),
                     (''page_size'', PInt page_size), (''lc'', PStr lang), (''cc'', PStr country)];
          (r, sent') = requests_get net
                        \<lparr>url = url', headers = HEADERS, params = params', timeout = 20\<rparr> sent
      in case r of
           Inl e \<Rightarrow> (Inl e, sent')
         | Inr resp \<Rightarrow>
             (case raise_for_status resp of
                Some e \<Rightarrow> (Inl e, sent')
              | None \<Rightarrow> (response_json resp, sent')))"

section \<open>SearchWorker\<close>

text \<open>
  The worker holds the search type and the query. It has the two signals
  \<^verbatim>\<open>finished = pyqtSignal(dict)\<close> and \<^verbatim>\<open>error = pyqtSignal(str)\<close>; a run ends by
  emitting one of them.
\<close>

record SearchWorker =
  search_type :: string
  query :: string

datatype signal = Finished dict | Error string

text \<open>
  \<^verbatim>\<open>self.finished.emit(products)\<close>: the signal is declared for a \<^verbatim>\<open>dict\<close>, and
  emitting any other value raises \<^verbatim>\<open>TypeError\<close> inside the \<^verbatim>\<open>try\<close> block.
\<close>

fun emit_finished :: "json \<Rightarrow> py_exc + signal" where
  "emit_finished (JObj d) = Inr (Finished d)"
| "emit_finished v =
     Inl (TypeError (''SearchWorker.finished[dict].emit(): argument 1 has unexpected type ''
                     @ [CHR 0x27] @ type_name v @ [CHR 0x27]))"

text \<open>
  The prefixes of the two \<^verbatim>\<open>except\<close> clauses, in UTF-8: the Russian for
  "Network error: " and for "Error: ".
\<close>

definition network_error_prefix :: string where
  "network_error_prefix =
     [CHR 0xD0, CHR 0x9E, CHR 0xD1, CHR 0x88, CHR 0xD0, CHR 0xB8, CHR 0xD0, CHR 0xB1, CHR 0xD0,
      CHR 0xBA, CHR 0xD0, CHR 0xB0, CHR 0x20, CHR 0xD1, CHR 0x81, CHR 0xD0, CHR 0xB5, CHR 0xD1,
      CHR 0x82, CHR 0xD0, CHR 0xB8, CHR 0x3A, CHR 0x20]"

definition error_prefix :: string where
  "error_prefix =
     [CHR 0xD0, CHR 0x9E, CHR 0xD1, CHR 0x88, CHR 0xD0, CHR 0xB8, CHR 0xD0, CHR 0xB1, CHR 0xD0,
      CHR 0xBA, CHR 0xD0, CHR 0xB0, CHR 0x3A, CHR 0x20]"

text \<open>
  The two handlers of \<^verbatim>\<open>run\<close>: \<^verbatim>\<open>except requests.exceptions.RequestException\<close>
  first, \<^verbatim>\<open>except Exception\<close> second; each emits the error signal with its prefix
  followed by \<^verbatim>\<open>str(e)\<close>.
\<close>

definition except_clauses :: "py_exc \<Rightarrow> signal" where
  "except_clauses e =
     (if is_request_exception e then Error (network_error_prefix @ str_exc e)
      else Error (error_prefix @ str_exc e))"

text \<open>
  \<^verbatim>\<open>
  def run(self):
      try:
          if self.search_type == 'barcode':
              result = get_product_by_barcode(self.query)
              if result.get("product"):
                  products = {"products": [ result["product"] ]}
              else:
                  products = {"products": []}
          else:
              products = search_products(self.query, page_size=10)
          self.finished.emit(products)
      except requests.exceptions.RequestException as e:
          self.error.emit(f"<network error prefix>{str(e)}")
      except Exception as e:
          self.error.emit(f"<error prefix>{str(e)}")
  \<close>
\<close>

definition run_try :: "http \<Rightarrow> SearchWorker \<Rightarrow> request list \<Rightarrow> (py_exc + json) \<times> request list" where
  "run_try net w sent =
     (if search_type w = ''barcode'' then
        (case get_product_by_barcode net (query w) None ''ru'' ''ru'' sent of
           (Inl e, sent') \<Rightarrow> (Inl e, sent')
         | (Inr result, sent') \<Rightarrow>
             (case attr_get result of
                Inl e \<Rightarrow> (Inl e, sent')
              | Inr d \<Rightarrow>
                  if truthy (dict_get d ''product'')
                  then (Inr (JObj [(''products'', JList [dict_get d ''product''])]), sent')
                  else (Inr (JObj [(''products'', JList [])]), sent')))
      else search_products net (query w) 10 None ''ru'' ''ru'' sent)"

definition run :: "http \<Rightarrow> SearchWorker \<Rightarrow> request list \<Rightarrow> signal \<times> request list" where
  "run net w sent =
     (case run_try net w sent of
        (Inl e, sent') \<Rightarrow> (except_clauses e, sent')
      | (Inr products, sent') \<Rightarrow>
          (case emit_finished products of
             Inl e \<Rightarrow> (except_clauses e, sent')
           | Inr s \<Rightarrow> (s, sent')))"

section \<open>The window: tables, indicators and the slots of the two signals\<close>

text \<open>
  A table has eight columns; a row is eight cells, each empty or holding an item. An
  item is kept as the value the program passes to \<^verbatim>\<open>QTableWidgetItem\<close>: the value
  itself in the first three columns, \<^verbatim>\<open>str(value)\<close> in the other five.
\<close>

datatype cell = Item json | Item_str json

text \<open>
  The constructor \<^verbatim>\<open>QTableWidgetItem(value)\<close> of the toolkit (not code of this
  repository), for the value of the first three columns. A string gives an item with
  that text. An integer or a boolean selects the overload that takes the item type, and
  gives an item. \<^verbatim>\<open>None\<close>, a float, a list and a dictionary match no overload: the
  constructor raises \<^verbatim>\<open>TypeError\<close> (its text, which lists the overloads, is
  shortened here). \<^verbatim>\<open>QTableWidgetItem(str(value))\<close> of the other five columns always
  receives a string and gives the item \<open>Item_str value\<close>.
\<close>

fun QTableWidgetItem :: "json \<Rightarrow> py_exc + cell" where
  "QTableWidgetItem (JStr s) = Inr (Item (JStr s))"
| "QTableWidgetItem (JInt i) = Inr (Item (JInt i))"
| "QTableWidgetItem (JBool b) = Inr (Item (JBool b))"
| "QTableWidgetItem v =
     Inl (TypeError (''QTableWidgetItem(): argument 1 has unexpected type ''
                     @ [CHR 0x27] @ type_name v @ [CHR 0x27]))"

type_synonym table = "cell option list list"

definition setRowCount :: "nat \<Rightarrow> table \<Rightarrow> table" where
  "setRowCount n t = take n t @ replicate (n - length t) (replicate 8 None)"

definition setItem :: "nat \<Rightarrow> nat \<Rightarrow> cell \<Rightarrow> table \<Rightarrow> table" where
  "setItem row col c t =
     (if row < length t \<and> col < 8 then t[row := (t ! row)[col := Some c]] else t)"

text \<open>
  \<^verbatim>\<open>len(v)\<close> and the elements \<^verbatim>\<open>enumerate(v)\<close> runs through. A string has one
  element for each code point: a byte from 0x80 to 0xBF continues the code point of the
  byte before it.
\<close>

definition is_continuation :: "char \<Rightarrow> bool" where
  "is_continuation c = (128 \<le> (of_char c :: nat) \<and> (of_char c :: nat) < 192)"

fun utf8_chars :: "string \<Rightarrow> string list" where
  "utf8_chars [] = []"
| "utf8_chars (c # cs) =
     (case utf8_chars cs of
        [] \<Rightarrow> [[c]]
      | g # gs \<Rightarrow>
          (case g of
             [] \<Rightarrow> [c] # gs
           | b # bs \<Rightarrow> if is_continuation b then (c # g) # gs else [c] # g # gs))"

fun py_len :: "json \<Rightarrow> py_exc + nat" where
  "py_len (JList xs) = Inr (length xs)"
| "py_len (JStr s) = Inr (length (utf8_chars s))"
| "py_len (JObj d) = Inr (length d)"
| "py_len v =
     Inl (TypeError (''object of type '' @ [CHR 0x27] @ type_name v @ [CHR 0x27] @ '' has no len()''))"

fun py_iter :: "json \<Rightarrow> json list" where
  "py_iter (JList xs) = xs"
| "py_iter (JStr s) = map JStr (utf8_chars s)"
| "py_iter (JObj d) = map (\<lambda>(k, v). JStr k) d"
| "py_iter v = []"

text \<open>
  The body of the loop of \<^verbatim>\<open>display_products_in_table\<close> for one row:
  \<^verbatim>\<open>
  nutriments = extract_kcal(product.get('nutriments', {}))
  table.setItem(row, 0, QTableWidgetItem(product.get('code', 'N/A')))
  table.setItem(row, 1, QTableWidgetItem(product.get('product_name', 'N/A')))
  table.setItem(row, 2, QTableWidgetItem(product.get('brands', 'N/A')))
  kcal = nutriments.get('kcal_100g', 'N/A')
  table.setItem(row, 3, QTableWidgetItem(str(kcal)))
  protein = nutriments.get('protein_100g', 'N/A')
  table.setItem(row, 4, QTableWidgetItem(str(protein)))
  fat = nutriments.get('fat_100g', 'N/A')
  table.setItem(row, 5, QTableWidgetItem(str(fat)))
  carbs = nutriments.get('carbs_100g', 'N/A')
  table.setItem(row, 6, QTableWidgetItem(str(carbs)))
  serving = product.get('serving_size', 'N/A')
  table.setItem(row, 7, QTableWidgetItem(str(serving)))
  \<close>
  An exception ends the loop and leaves the table as it is at that moment.
\<close>

definition display_row :: "table \<Rightarrow> nat \<Rightarrow> json \<Rightarrow> py_exc option \<times> table" where
  "display_row t row product =
     (case attr_get product of
        Inl e \<Rightarrow> (Some e, t)
      | Inr p \<Rightarrow>
          (case extract_kcal (dict_get_default p ''nutriments'' (JObj [])) of
             Inl e \<Rightarrow> (Some e, t)
           | Inr nutriments \<Rightarrow>
               (case QTableWidgetItem (dict_get_default p ''code'' (JStr ''N/A'')) of
                  Inl e \<Rightarrow> (Some e, t)
                | Inr c0 \<Rightarrow>
                    (let t0 = setItem row 0 c0 t
                     in case QTableWidgetItem (dict_get_default p ''product_name'' (JStr ''N/A'')) of
                          Inl e \<Rightarrow> (Some e, t0)
                        | Inr c1 \<Rightarrow>
                            (let t1 = setItem row 1 c1 t0
                             in case QTableWidgetItem (dict_get_default p ''brands'' (JStr ''N/A'')) of
                                  Inl e \<Rightarrow> (Some e, t1)
                                | Inr c2 \<Rightarrow>
                                    (let t2 = setItem row 2 c2 t1;
                                         t3 = setItem row 3 (Item_str (dict_get_default nutriments ''kcal_100g'' (JStr ''N/A''))) t2;
                                         t4 = setItem row 4 (Item_str (dict_get_default nutriments ''protein_100g'' (JStr ''N/A''))) t3;
                                         t5 = setItem row 5 (Item_str (dict_get_default nutriments ''fat_100g'' (JStr ''N/A''))) t4;
                                         t6 = setItem row 6 (Item_str (dict_get_default nutriments ''carbs_100g'' (JStr ''N/A''))) t5;
                                         t7 = setItem row 7 (Item_str (dict_get_default p ''serving_size'' (JStr ''N/A''))) t6
                                     in (None, t7)))))))"

fun display_rows :: "table \<Rightarrow> nat \<Rightarrow> json list \<Rightarrow> py_exc option \<times> table" where
  "display_rows t row [] = (None, t)"
| "display_rows t row (product # rest) =
     (case display_row t row product of
        (Some e, t') \<Rightarrow> (Some e, t')
      | (None, t') \<Rightarrow> display_rows t' (Suc row) rest)"

text \<open>
  \<^verbatim>\<open>
  def display_products_in_table(self, table, products):
      products_list = products.get('products', [])
      table.setRowCount(len(products_list))
      for row, product in enumerate(products_list):
          ...
  \<close>
\<close>

definition display_products_in_table :: "table \<Rightarrow> dict \<Rightarrow> py_exc option \<times> table" where
  "display_products_in_table t products =
     (let products_list = dict_get_default products ''products'' (JList [])
      in case py_len products_list of
           Inl e \<Rightarrow> (Some e, t)
         | Inr n \<Rightarrow> display_rows (setRowCount n t) 0 (py_iter products_list))"

text \<open>
  The fixed texts of the status bar and of the message boxes are an enumeration:
  \<open>Ready\<close> is the text set by \<^verbatim>\<open>initUI\<close>, \<open>Searching_barcode\<close> and
  \<open>Searching_name\<close> the texts set when a search starts, \<open>Found count\<close> the text
  with the number of products, \<open>Search_failed\<close> the text set by
  \<^verbatim>\<open>on_search_error\<close>. \<open>Warning_enter_barcode\<close> and \<open>Warning_enter_name\<close> are the
  two \<^verbatim>\<open>QMessageBox.warning\<close> boxes for an empty input, \<open>Critical m\<close> is the
  \<^verbatim>\<open>QMessageBox.critical\<close> box showing the message \<open>m\<close>.
\<close>

datatype status = Ready | Searching_barcode | Searching_name | Found nat | Search_failed

datatype dialog = Warning_enter_barcode | Warning_enter_name | Critical string

record CalorieFinderApp =
  barcode_input :: string
  barcode_search_btn_enabled :: bool
  barcode_progress_visible :: bool
  barcode_progress_range :: "int \<times> int"
  barcode_table :: table
  name_input :: string
  name_search_btn_enabled :: bool
  name_progress_visible :: bool
  name_progress_range :: "int \<times> int"
  name_table :: table
  status_bar :: status
  dialogs :: "dialog list"
  search_worker :: "SearchWorker option"

text \<open>The window after \<^verbatim>\<open>initUI\<close>.\<close>

definition initUI :: CalorieFinderApp where
  "initUI =
     \<lparr>barcode_input = [], barcode_search_btn_enabled = True, barcode_progress_visible = False,
      barcode_progress_range = (0, 100), barcode_table = [],
      name_input = [], name_search_btn_enabled = True, name_progress_visible = False,
      name_progress_range = (0, 100), name_table = [],
      status_bar = Ready, dialogs = [], search_worker = None\<rparr>"

text \<open>
  \<^verbatim>\<open>str.strip()\<close> removes the white space at both ends. The white-space characters
  of Python are listed in their UTF-8 encoding.
\<close>

definition whitespace :: "string list" where
  "whitespace =
     [CHR 0x09] # [CHR 0x0A] # [CHR 0x0B] # [CHR 0x0C] # [CHR 0x0D] #
     [CHR 0x1C] # [CHR 0x1D] # [CHR 0x1E] # [CHR 0x1F] # [CHR 0x20] #
     [CHR 0xC2, CHR 0x85] # [CHR 0xC2, CHR 0xA0] # [CHR 0xE1, CHR 0x9A, CHR 0x80] #
     [CHR 0xE2, CHR 0x80, CHR 0x80] # [CHR 0xE2, CHR 0x80, CHR 0x81] #
     [CHR 0xE2, CHR 0x80, CHR 0x82] # [CHR 0xE2, CHR 0x80, CHR 0x83] #
     [CHR 0xE2, CHR 0x80, CHR 0x84] # [CHR 0xE2, CHR 0x80, CHR 0x85] #
     [CHR 0xE2, CHR 0x80, CHR 0x86] # [CHR 0xE2, CHR 0x80, CHR 0x87] #
     [CHR 0xE2, CHR 0x80, CHR 0x88] # [CHR 0xE2, CHR 0x80, CHR 0x89] #
     [CHR 0xE2, CHR 0x80, CHR 0x8A] # [CHR 0xE2, CHR 0x80, CHR 0xA8] #
     [CHR 0xE2, CHR 0x80, CHR 0xA9] # [CHR 0xE2, CHR 0x80, CHR 0xAF] #
     [CHR 0xE2, CHR 0x81, CHR 0x9F] # [CHR 0xE3, CHR 0x80, CHR 0x80] # []"

text \<open>The length of the white-space character a string starts with, 0 when there is none.\<close>

definition leading_space :: "string list \<Rightarrow> string \<Rightarrow> nat" where
  "leading_space ws s =
     (case find (\<lambda>w. w \<noteq> [] \<and> take (length w) s = w) ws of
        None \<Rightarrow> 0
      | Some w \<Rightarrow> length w)"

function lstrip_with :: "string list \<Rightarrow> string \<Rightarrow> string" where
  "lstrip_with ws s =
     (if leading_space ws s = 0 then s else lstrip_with ws (drop (leading_space ws s) s))"
  by pat_completeness auto


termination lstrip_with
proof (relation "measure (\<lambda>(ws, s). length s)")
  show "wf (measure (\<lambda>(ws, s). length s))" by simp
next
  fix ws :: "string list" and s :: string
  assume a: "leading_space ws s \<noteq> 0"
  have "leading_space ws [] = 0"
    by (auto simp: leading_space_def find_Some_iff split: option.splits)
  with a have "s \<noteq> []" by auto
  with a show "((ws, drop (leading_space ws s) s), (ws, s)) \<in> measure (\<lambda>(ws, s). length s)"
    by simp
qed

declare lstrip_with.simps [simp del]

definition lstrip :: "string \<Rightarrow> string" where
  "lstrip s = lstrip_with whitespace s"

definition rstrip :: "string \<Rightarrow> string" where
  "rstrip s = rev (lstrip_with (map rev whitespace) (rev s))"

definition strip :: "string \<Rightarrow> string" where
  "strip s = rstrip (lstrip s)"

text \<open>
  Starting a search creates a worker and connects its signals: \<^verbatim>\<open>finished\<close> to the
  slot of the tab, \<^verbatim>\<open>error\<close> to \<^verbatim>\<open>on_search_error\<close>. The started thread is returned
  with the slot its \<^verbatim>\<open>finished\<close> signal is connected to.
  \<^verbatim>\<open>
  def search_by_barcode(self):
      barcode = self.barcode_input.text().strip()
      if not barcode:
          QMessageBox.warning(self, ..., ...)
          return
      self.barcode_search_btn.setEnabled(False)
      self.barcode_progress.setVisible(True)
      self.barcode_progress.setRange(0, 0)
      self.statusBar().showMessage(...)
      self.search_worker = SearchWorker('barcode', barcode)
      self.search_worker.finished.connect(self.on_barcode_search_finished)
      self.search_worker.error.connect(self.on_search_error)
      self.search_worker.start()
  \<close>
  \<^verbatim>\<open>search_by_name\<close> is the same on the widgets of the name tab, with
  \<^verbatim>\<open>SearchWorker('name', name)\<close> and \<^verbatim>\<open>on_name_search_finished\<close>.
\<close>

datatype slot = On_barcode_search_finished | On_name_search_finished

definition search_by_barcode :: "CalorieFinderApp \<Rightarrow> CalorieFinderApp \<times> (SearchWorker \<times> slot) option" where
  "search_by_barcode s =
     (let barcode = strip (barcode_input s)
      in if barcode = [] then (s\<lparr>dialogs := dialogs s @ [Warning_enter_barcode]\<rparr>, None)
         else (let w = \<lparr>search_type = ''barcode'', query = barcode\<rparr>
               in (s\<lparr>barcode_search_btn_enabled := False,
                     barcode_progress_visible := True,
                     barcode_progress_range := (0, 0),
                     status_bar := Searching_barcode,
                     search_worker := Some w\<rparr>,
                   Some (w, On_barcode_search_finished))))"

definition search_by_name :: "CalorieFinderApp \<Rightarrow> CalorieFinderApp \<times> (SearchWorker \<times> slot) option" where
  "search_by_name s =
     (let name = strip (name_input s)
      in if name = [] then (s\<lparr>dialogs := dialogs s @ [Warning_enter_name]\<rparr>, None)
         else (let w = \<lparr>search_type = ''name'', query = name\<rparr>
               in (s\<lparr>name_search_btn_enabled := False,
                     name_progress_visible := True,
                     name_progress_range := (0, 0),
                     status_bar := Searching_name,
                     search_worker := Some w\<rparr>,
                   Some (w, On_name_search_finished))))"

text \<open>
  \<^verbatim>\<open>
  def on_barcode_search_finished(self, products):
      self.barcode_search_btn.setEnabled(True)
      self.barcode_progress.setVisible(False)
      self.display_products_in_table(self.barcode_table, products)
      count = len(products.get('products', []))
      self.statusBar().showMessage(f'<found>: {count}')
  \<close>
  A slot returns the window and the exception that escaped it, if any; the window is
  the one at the moment of the raise.
\<close>

definition on_barcode_search_finished :: "CalorieFinderApp \<Rightarrow> dict \<Rightarrow> py_exc option \<times> CalorieFinderApp" where
  "on_barcode_search_finished s products =
     (let s1 = s\<lparr>barcode_search_btn_enabled := True, barcode_progress_visible := False\<rparr>
      in case display_products_in_table (barcode_table s1) products of
           (Some e, t) \<Rightarrow> (Some e, s1\<lparr>barcode_table := t\<rparr>)
         | (None, t) \<Rightarrow>
             (case py_len (dict_get_default products ''products'' (JList [])) of
                Inl e \<Rightarrow> (Some e, s1\<lparr>barcode_table := t\<rparr>)
              | Inr count \<Rightarrow> (None, s1\<lparr>barcode_table := t, status_bar := Found count\<rparr>)))"

definition on_name_search_finished :: "CalorieFinderApp \<Rightarrow> dict \<Rightarrow> py_exc option \<times> CalorieFinderApp" where
  "on_name_search_finished s products =
     (let s1 = s\<lparr>name_search_btn_enabled := True, name_progress_visible := False\<rparr>
      in case display_products_in_table (name_table s1) products of
           (Some e, t) \<Rightarrow> (Some e, s1\<lparr>name_table := t\<rparr>)
         | (None, t) \<Rightarrow>
             (case py_len (dict_get_default products ''products'' (JList [])) of
                Inl e \<Rightarrow> (Some e, s1\<lparr>name_table := t\<rparr>)
              | Inr count \<Rightarrow> (None, s1\<lparr>name_table := t, status_bar := Found count\<rparr>)))"

text \<open>
  \<^verbatim>\<open>
  def on_search_error(self, error_message):
      self.barcode_search_btn.setEnabled(True)
      self.name_search_btn.setEnabled(True)
      self.barcode_progress.setVisible(False)
      self.name_progress.setVisible(False)
      QMessageBox.critical(self, ..., error_message)
      self.statusBar().showMessage(...)
  \<close>
\<close>

definition on_search_error :: "CalorieFinderApp \<Rightarrow> string \<Rightarrow> CalorieFinderApp" where
  "on_search_error s error_message =
     s\<lparr>barcode_search_btn_enabled := True,
       name_search_btn_enabled := True,
       barcode_progress_visible := False,
       name_progress_visible := False,
       dialogs := dialogs s @ [Critical error_message],
       status_bar := Search_failed\<rparr>"

text \<open>The delivery of a worker's signal to the slot connected to it.\<close>

definition deliver :: "slot \<Rightarrow> signal \<Rightarrow> CalorieFinderApp \<Rightarrow> py_exc option \<times> CalorieFinderApp" where
  "deliver sl sig s =
     (case sig of
        Error error_message \<Rightarrow> (None, on_search_error s error_message)
      | Finished products \<Rightarrow>
          (case sl of
             On_barcode_search_finished \<Rightarrow> on_barcode_search_finished s products
           | On_name_search_finished \<Rightarrow> on_name_search_finished s products))"

section \<open>Several searches in flight\<close>

text \<open>
  The window together with the threads it has started. \<open>threads\<close> lists every worker
  on which \<^verbatim>\<open>start()\<close> was called, in that order, with the slot of its
  \<^verbatim>\<open>finished\<close> signal; \<open>completed\<close> lists the threads whose run has ended;
  \<open>callbacks\<close> lists the signals delivered to the window, each with the number of its
  thread; \<open>uncaught\<close> is the exception that escaped a slot, if one did;
  \<open>requests_sent\<close> is the log of the HTTP requests.

  An event is a call of \<^verbatim>\<open>search_by_barcode\<close> or \<^verbatim>\<open>search_by_name\<close> with the given
  text in the input field (both stay reachable while a search runs: the button is
  disabled, \<^verbatim>\<open>returnPressed\<close> of the input field is not), or the end of the run of
  a started thread, whose signal is then delivered. Assigning a new worker to
  \<^verbatim>\<open>self.search_worker\<close> neither stops the earlier thread nor disconnects its signals.

  Nothing in the program handles an exception that escapes a slot (no
  \<^verbatim>\<open>try\<close> in the slots, no \<^verbatim>\<open>sys.excepthook\<close>): the toolkit then ends the process.
  The world keeps the window of that moment, and no later event changes it.
\<close>

record world =
  app :: CalorieFinderApp
  threads :: "(SearchWorker \<times> slot) list"
  completed :: "nat list"
  callbacks :: "(nat \<times> signal) list"
  uncaught :: "py_exc option"
  requests_sent :: "request list"








section \<open>The requests of a worker\<close>

text \<open>
  The request that \<^verbatim>\<open>get_product_by_barcode(barcode)\<close> and the request that
  \<^verbatim>\<open>search_products(query, page_size=10)\<close> build when \<^verbatim>\<open>SearchWorker.run\<close> calls
  them, and the one request of a worker. The properties below are stated for the reply
  of the network to this request.
\<close>

definition product_request :: "string \<Rightarrow> request" where
  "product_request barcode =
     \<lparr>url = BASE @ ''/api/v2/product/'' @ barcode,
      headers = HEADERS,
      params = [(''fields'', PStr ''code,product_name,nutriments,brands,quantity,serving_size,language,lang,lc''),
                (''lc'', PStr ''ru''), (''cc'', PStr ''ru'')],
      timeout = 20\<rparr>"

definition search_request :: "string \<Rightarrow> request" where
  "search_request q =
     \<lparr>url = BASE @ ''/api/v2/search'',
      headers = HEADERS,
      params = [(''search_terms'', PStr q),
                (''fields'', PStr ''code,product_name,brands,nutriments,quantity,serving_size,ecoscore_grade''),
                (''page_size'', PInt 10), (''lc'', PStr ''ru''), (''cc'', PStr ''ru'')],
      timeout = 20\<rparr>"

definition worker_request :: "SearchWorker \<Rightarrow> request" where
  "worker_request w =
     (if search_type w = ''barcode'' then product_request (query w) else search_request (query w))"

section \<open>Networks used in the examples\<close>

text \<open>
  Three stand-ins for the provider: a reply with status 200 whose body decodes to the
  given value; a network that gives the same reply to every request; and a provider
  that answers a product request with a product whose code is the barcode in the path
  of the URL.
\<close>

definition reply_200 :: "json \<Rightarrow> py_exc + response" where
  "reply_200 v = Inr \<lparr>status_code = 200, http_error = [], json_result = Inr v\<rparr>"

definition always :: "py_exc + response \<Rightarrow> http" where
  "always r rq = r"


section \<open>Properties of extract_kcal\<close>

lemma extract_kcal_obj:
  "extract_kcal (JObj n) = Inr (filter (\<lambda>(k, v). v \<noteq> JNull) (extract_kcal_data n))"
  by (simp add: extract_kcal_def)

lemma map_of_filter_values:
  "distinct (map fst xs) \<Longrightarrow>
   map_of (filter (\<lambda>(k, v). P v) xs) k =
     (case map_of xs k of None \<Rightarrow> None | Some v \<Rightarrow> if P v then Some v else None)"
proof (induction xs)
  case Nil
  then show ?case by simp
next
  case (Cons x xs)
  obtain a b where x: "x = (a, b)" by (cases x)
  from Cons.prems x have notin: "a \<notin> fst ` set xs" and d: "distinct (map fst xs)" by auto
  from notin have none: "map_of xs a = None" by (simp add: map_of_eq_None_iff)
  from notin have "a \<notin> fst ` set (filter (\<lambda>(k, v). P v) xs)" by auto
  then have nonef: "map_of (filter (\<lambda>(k, v). P v) xs) a = None" by (simp add: map_of_eq_None_iff)
  show ?case using Cons.IH [OF d] x none nonef by auto
qed

lemma distinct_extract_kcal_data: "distinct (map fst (extract_kcal_data n))"
  by (simp add: extract_kcal_data_def)

lemma field_extract_kcal:
  "field (extract_kcal (JObj n)) k =
     (case map_of (extract_kcal_data n) k of
        None \<Rightarrow> None
      | Some v \<Rightarrow> if v \<noteq> JNull then Some v else None)"
  by (simp add: field_def extract_kcal_obj map_of_filter_values [OF distinct_extract_kcal_data])

lemma dict_get_present:
  "present n k = (if dict_get n k = JNull then None else Some (dict_get n k))"
  by (simp add: present_def dict_get_def dict_get_default_def split: option.splits)

text \<open>
  Each of the seven fields read from one provider key is in the output exactly when
  that key exists with a non-null value, and then holds that value unchanged.
\<close>

lemma field_direct_all:
  "list_all (\<lambda>(out, raw). field (extract_kcal (JObj n)) out = present n raw) direct_fields"
  by (simp add: direct_fields_def field_extract_kcal extract_kcal_data_def dict_get_present)

lemma field_direct:
  "(out, raw) \<in> set direct_fields \<Longrightarrow> field (extract_kcal (JObj n)) out = present n raw"
  using field_direct_all [of n] unfolding list_all_iff by blast

lemma protein_100g_absent:
  "map_of n ''proteins_100g'' = None \<Longrightarrow> field (extract_kcal (JObj n)) ''protein_100g'' = None"
  by (simp add: field_extract_kcal extract_kcal_data_def dict_get_def dict_get_default_def)

text \<open>
  The field \<open>kcal_100g\<close>: the value of \<open>energy-kcal_100g\<close> when that value is truthy,
  otherwise the value of \<open>energy-kcal_value\<close> when that key exists with a non-null
  value, otherwise absent.
\<close>

lemma field_kcal_100g:
  "field (extract_kcal (JObj n)) ''kcal_100g'' =
     (if truthy (dict_get n ''energy-kcal_100g'') then Some (dict_get n ''energy-kcal_100g'')
      else present n ''energy-kcal_value'')"
  by (auto simp: field_extract_kcal extract_kcal_data_def dict_get_present py_or_def)

text \<open>The example of the specification: a null primary key falls back.\<close>

lemma extract_kcal_null_primary:
  "extract_kcal (JObj [(''energy-kcal_100g'', JNull), (''energy-kcal_value'', JInt 120)])
     = Inr [(''kcal_100g'', JInt 120)]"
  by (simp add: extract_kcal_obj extract_kcal_data_def dict_get_def dict_get_default_def py_or_def)

text \<open>
  Claim C2. The fallback from \<open>energy-kcal_100g\<close> to \<open>energy-kcal_value\<close> is claimed
  to apply only when the primary key is absent or null, so that a present, non-null
  \<open>energy-kcal_100g\<close> is always the value of \<open>kcal_100g\<close>. The code tests the primary
  value with \<^verbatim>\<open>or\<close>: on the mapping with \<open>energy-kcal_100g = 0\<close> and
  \<open>energy-kcal_value = 120\<close> the primary key is present and not null, and the output
  holds \<open>kcal_100g = 120\<close>, the fallback value, not 0.
\<close>

theorem extract_kcal_zero_primary_falls_back:
  "extract_kcal (JObj [(''energy-kcal_100g'', JInt 0), (''energy-kcal_value'', JInt 120)])
     = Inr [(''kcal_100g'', JInt 120)]"
  by (simp add: extract_kcal_obj extract_kcal_data_def dict_get_def dict_get_default_def py_or_def)

text \<open>
  Claim C3. Each of the eight output fields is claimed to be present if and only if its
  provider key exists with a non-null value, the value passed through unchanged. On the
  mapping that holds only \<open>energy-kcal_100g = 0\<close> the provider key exists with the
  non-null value 0, and the output of the code is the empty record: it has no
  \<open>kcal_100g\<close>.
\<close>

theorem extract_kcal_drops_zero_kcal:
  "present [(''energy-kcal_100g'', JInt 0)] ''energy-kcal_100g'' = Some (JInt 0) \<and>
   extract_kcal (JObj [(''energy-kcal_100g'', JInt 0)]) = Inr [] \<and>
   field (extract_kcal (JObj [(''energy-kcal_100g'', JInt 0)])) ''kcal_100g'' = None"
  by (simp add: field_def present_def extract_kcal_obj extract_kcal_data_def dict_get_def
        dict_get_default_def py_or_def)

text \<open>
  Outside the mappings the function raises: \<^verbatim>\<open>extract_kcal(None)\<close>, which
  \<^verbatim>\<open>display_products_in_table\<close> calls for a product whose \<open>nutriments\<close> is null,
  fails on reading \<^verbatim>\<open>nutriments.get\<close>.
\<close>

lemma extract_kcal_None: "extract_kcal JNull = Inl (no_attribute_get JNull)"
  by (simp add: extract_kcal_def)

text \<open>
  Claim C4. \<open>extract_kcal\<close> never fails on a mapping: applied to any dictionary it
  returns a record, and applied to the empty dictionary it returns the empty record.
\<close>

theorem extract_kcal_total:
  "(\<exists>r. extract_kcal (JObj n) = Inr r) \<and> extract_kcal (JObj []) = Inr []"
  by (simp add: extract_kcal_obj extract_kcal_data_def dict_get_def dict_get_default_def py_or_def)

section \<open>Properties of the HTTP calls and of the worker\<close>

lemma get_product_by_barcode_reply:
  "get_product_by_barcode net barcode None ''ru'' ''ru'' sent =
     ((case net (product_request barcode) of
         Inl e \<Rightarrow> Inl e
       | Inr resp \<Rightarrow> (case raise_for_status resp of Some e \<Rightarrow> Inl e | None \<Rightarrow> response_json resp)),
      sent @ [product_request barcode])"
  by (simp add: get_product_by_barcode_def product_request_def requests_get_def
           split: sum.splits option.splits)

lemma search_products_reply:
  "search_products net q 10 None ''ru'' ''ru'' sent =
     ((case net (search_request q) of
         Inl e \<Rightarrow> Inl e
       | Inr resp \<Rightarrow> (case raise_for_status resp of Some e \<Rightarrow> Inl e | None \<Rightarrow> response_json resp)),
      sent @ [search_request q])"
  by (simp add: search_products_def search_request_def requests_get_def
           split: sum.splits option.splits)

lemma run_try_barcode:
  "search_type w = ''barcode'' \<Longrightarrow>
   run_try net w sent =
     ((case net (worker_request w) of
         Inl e \<Rightarrow> Inl e
       | Inr resp \<Rightarrow>
           (case raise_for_status resp of
              Some e \<Rightarrow> Inl e
            | None \<Rightarrow>
                (case response_json resp of
                   Inl e \<Rightarrow> Inl e
                 | Inr result \<Rightarrow>
                     (case attr_get result of
                        Inl e \<Rightarrow> Inl e
                      | Inr d \<Rightarrow>
                          Inr (JObj [(''products'',
                                 JList (if truthy (dict_get d ''product'')
                                        then [dict_get d ''product''] else []))]))))),
      sent @ [worker_request w])"
  by (auto simp: run_try_def worker_request_def get_product_by_barcode_reply
           split: sum.splits option.splits)

lemma run_try_name:
  "search_type w \<noteq> ''barcode'' \<Longrightarrow>
   run_try net w sent =
     ((case net (worker_request w) of
         Inl e \<Rightarrow> Inl e
       | Inr resp \<Rightarrow>
           (case raise_for_status resp of Some e \<Rightarrow> Inl e | None \<Rightarrow> response_json resp)),
      sent @ [worker_request w])"
  by (simp add: run_try_def worker_request_def search_products_reply)

lemma run_transport_failure:
  "net (worker_request w) = Inl e \<Longrightarrow> run net w sent = (except_clauses e, sent @ [worker_request w])"
  by (cases "search_type w = ''barcode''") (simp_all add: run_def run_try_barcode run_try_name)



lemma run_barcode_dict:
  "search_type w = ''barcode'' \<Longrightarrow> net (worker_request w) = Inr resp \<Longrightarrow>
   raise_for_status resp = None \<Longrightarrow> json_result resp = Inr (JObj d) \<Longrightarrow>
   run net w sent =
     (Finished [(''products'',
                 JList (if truthy (dict_get d ''product'') then [dict_get d ''product''] else []))],
      sent @ [worker_request w])"
  by (simp add: run_def run_try_barcode response_json_def)

lemma run_name_dict:
  "search_type w \<noteq> ''barcode'' \<Longrightarrow> net (worker_request w) = Inr resp \<Longrightarrow>
   raise_for_status resp = None \<Longrightarrow> json_result resp = Inr (JObj d) \<Longrightarrow>
   run net w sent = (Finished d, sent @ [worker_request w])"
  by (simp add: run_def run_try_name response_json_def)

lemma raise_for_status_2xx:
  "200 \<le> status_code resp \<Longrightarrow> status_code resp < 300 \<Longrightarrow> raise_for_status resp = None"
  by (simp add: raise_for_status_def)

lemma run_emits_one_signal:
  "(\<exists>d. fst (run net w sent) = Finished d) \<or> (\<exists>m. fst (run net w sent) = Error m)"
  by (cases "fst (run net w sent)") auto

lemma display_no_products:
  "dict_get_default products ''products'' (JList []) = JList [] \<Longrightarrow>
   display_products_in_table t products = (None, [])"
  by (simp add: display_products_in_table_def setRowCount_def)

lemma on_barcode_search_finished_no_products:
  "dict_get_default products ''products'' (JList []) = JList [] \<Longrightarrow>
   on_barcode_search_finished s products =
     (None, s\<lparr>barcode_search_btn_enabled := True, barcode_progress_visible := False,
              barcode_table := [], status_bar := Found 0\<rparr>)"
  by (simp add: on_barcode_search_finished_def display_no_products)

lemma on_name_search_finished_no_products:
  "dict_get_default products ''products'' (JList []) = JList [] \<Longrightarrow>
   on_name_search_finished s products =
     (None, s\<lparr>name_search_btn_enabled := True, name_progress_visible := False,
              name_table := [], status_bar := Found 0\<rparr>)"
  by (simp add: on_name_search_finished_def display_no_products)

lemma on_barcode_search_finished_clears:
  "barcode_search_btn_enabled (snd (on_barcode_search_finished s d)) \<and>
   \<not> barcode_progress_visible (snd (on_barcode_search_finished s d))"
  by (simp add: on_barcode_search_finished_def Let_def split: prod.splits option.splits sum.splits)

lemma on_name_search_finished_clears:
  "name_search_btn_enabled (snd (on_name_search_finished s d)) \<and>
   \<not> name_progress_visible (snd (on_name_search_finished s d))"
  by (simp add: on_name_search_finished_def Let_def split: prod.splits option.splits sum.splits)

lemma on_search_error_clears:
  "barcode_search_btn_enabled (on_search_error s m) \<and>
   \<not> barcode_progress_visible (on_search_error s m) \<and>
   name_search_btn_enabled (on_search_error s m) \<and>
   \<not> name_progress_visible (on_search_error s m)"
  by (simp add: on_search_error_def)

lemma run_eq:
  "run net w sent =
     ((case fst (run_try net w sent) of
         Inl e \<Rightarrow> except_clauses e
       | Inr products \<Rightarrow>
           (case emit_finished products of Inl e \<Rightarrow> except_clauses e | Inr s \<Rightarrow> s)),
      snd (run_try net w sent))"
  by (simp add: run_def split: prod.splits sum.splits)












lemma strip_123: "strip ''123'' = ''123''"
  by (simp add: strip_def lstrip_def rstrip_def lstrip_with.simps leading_space_def whitespace_def)

lemma strip_456: "strip ''456'' = ''456''"
  by (simp add: strip_def lstrip_def rstrip_def lstrip_with.simps leading_space_def whitespace_def)

lemma strip_spaces: "strip '' 12 3  '' = ''12 3''"
  by (simp add: strip_def lstrip_def rstrip_def lstrip_with.simps leading_space_def whitespace_def)

lemma strip_blank: "strip ''   '' = []"
  by (simp add: strip_def lstrip_def rstrip_def lstrip_with.simps leading_space_def whitespace_def)


text \<open>
  Claim C8. Every call of \<^verbatim>\<open>get_product_by_barcode\<close> and of \<^verbatim>\<open>search_products\<close>
  sends exactly one request, whatever the network answers (there is no retry), with the
  timeout 20: to the product endpoint under the fixed base with the parameters
  \<open>fields\<close>, \<open>lc\<close>, \<open>cc\<close>, and to the search endpoint with the parameters
  \<open>search_terms\<close>, \<open>fields\<close>, \<open>page_size\<close>, \<open>lc\<close>, \<open>cc\<close>; both carry the fixed
  \<open>HEADERS\<close>.
\<close>

theorem one_request_per_call:
  "snd (get_product_by_barcode net barcode flds lang country sent) =
     sent @ [\<lparr>url = BASE @ ''/api/v2/product/'' @ barcode, headers = HEADERS,
              params = [(''fields'', PStr (case flds of None \<Rightarrow> ''code,product_name,nutriments,brands,quantity,serving_size,language,lang,lc'' | Some f \<Rightarrow> f)),
                        (''lc'', PStr lang), (''cc'', PStr country)],
              timeout = 20\<rparr>] \<and>
   snd (search_products net q page_size flds lang country sent) =
     sent @ [\<lparr>url = BASE @ ''/api/v2/search'', headers = HEADERS,
              params = [(''search_terms'', PStr q),
                        (''fields'', PStr (case flds of None \<Rightarrow> ''code,product_name,brands,nutriments,quantity,serving_size,ecoscore_grade'' | Some f \<Rightarrow> f)),
                        (''page_size'', PInt page_size), (''lc'', PStr lang), (''cc'', PStr country)],
              timeout = 20\<rparr>]"
  by (simp add: get_product_by_barcode_def search_products_def requests_get_def Let_def
           split: sum.splits option.splits)

section \<open>What the worker reports to the window\<close>

text \<open>
  Claim C6. A name search whose 2xx response decodes to a dictionary with no products
  (the key \<open>products\<close> holds the empty list, or is missing) ends with the finished
  signal carrying that dictionary, and the slot shows a table with no rows and the count
  0; no exception is raised and the error signal is not emitted.
\<close>

theorem empty_name_search_is_success:
  "search_type w = ''name'' \<and> net (worker_request w) = Inr resp \<and>
   200 \<le> status_code resp \<and> status_code resp < 300 \<and> json_result resp = Inr (JObj d) \<and>
   dict_get_default d ''products'' (JList []) = JList [] \<longrightarrow>
   fst (run net w sent) = Finished d \<and>
   deliver On_name_search_finished (fst (run net w sent)) s =
     (None, s\<lparr>name_search_btn_enabled := True, name_progress_visible := False,
              name_table := [], status_bar := Found 0\<rparr>)"
proof (intro impI, elim conjE)
  assume a: "search_type w = ''name''" "net (worker_request w) = Inr resp"
    "200 \<le> status_code resp" "status_code resp < 300" "json_result resp = Inr (JObj d)"
    "dict_get_default d ''products'' (JList []) = JList []"
  have r: "run net w sent = (Finished d, sent @ [worker_request w])"
    using a by (intro run_name_dict raise_for_status_2xx) simp_all
  show "fst (run net w sent) = Finished d \<and>
   deliver On_name_search_finished (fst (run net w sent)) s =
     (None, s\<lparr>name_search_btn_enabled := True, name_progress_visible := False,
              name_table := [], status_bar := Found 0\<rparr>)"
    by (simp add: r deliver_def on_name_search_finished_no_products [OF a(6)])
qed

theorem empty_name_search_is_success_witness:
  "(search_type \<lparr>search_type = ''name'', query = ''milk''\<rparr> = ''name'' \<and>
    always (reply_200 (JObj [(''products'', JList [])]))
      (worker_request \<lparr>search_type = ''name'', query = ''milk''\<rparr>) =
      Inr \<lparr>status_code = 200, http_error = [], json_result = Inr (JObj [(''products'', JList [])])\<rparr> \<and>
    dict_get_default [(''products'', JList [])] ''products'' (JList []) = JList []) \<and>
   fst (run (always (reply_200 (JObj [(''products'', JList [])])))
          \<lparr>search_type = ''name'', query = ''milk''\<rparr> []) =
     Finished [(''products'', JList [])] \<and>
   deliver On_name_search_finished
     (fst (run (always (reply_200 (JObj [(''products'', JList [])])))
             \<lparr>search_type = ''name'', query = ''milk''\<rparr> [])) initUI =
     (None, initUI\<lparr>name_search_btn_enabled := True, name_progress_visible := False,
                   name_table := [], status_bar := Found 0\<rparr>)"
proof -
  have h: "search_type \<lparr>search_type = ''name'', query = ''milk''\<rparr> = ''name''"
    "always (reply_200 (JObj [(''products'', JList [])]))
      (worker_request \<lparr>search_type = ''name'', query = ''milk''\<rparr>) =
      Inr \<lparr>status_code = 200, http_error = [], json_result = Inr (JObj [(''products'', JList [])])\<rparr>"
    "dict_get_default [(''products'', JList [])] ''products'' (JList []) = JList []"
    by (simp_all add: always_def reply_200_def dict_get_default_def)
  show ?thesis
    using h empty_name_search_is_success
      [where w = "\<lparr>search_type = ''name'', query = ''milk''\<rparr>"
         and net = "always (reply_200 (JObj [(''products'', JList [])]))"
         and resp = "\<lparr>status_code = 200, http_error = [],
                       json_result = Inr (JObj [(''products'', JList [])])\<rparr>"
         and d = "[(''products'', JList [])]" and sent = "[]" and s = initUI]
    by auto
qed


text \<open>
  Claim C5. For a barcode lookup with a 2xx response whose \<open>product\<close> field is absent
  or null, the worker reports success with no products and the slot shows zero rows. The
  second half is claimed for every present product record; the code wraps the product
  only when it is truthy. On the body \<open>{"product": {}}\<close> the product is a present,
  empty record, and the worker reports success with no products, not with the
  one-element sequence holding that record.
\<close>

theorem empty_product_record_is_not_wrapped:
  "fst (run (always (reply_200 (JObj [(''product'', JObj [])])))
          \<lparr>search_type = ''barcode'', query = ''123''\<rparr> []) =
     Finished [(''products'', JList [])] \<and>
   fst (run (always (reply_200 (JObj [(''product'', JObj [])])))
          \<lparr>search_type = ''barcode'', query = ''123''\<rparr> []) \<noteq>
     Finished [(''products'', JList [JObj []])]"
  by (simp add: run_eq run_try_barcode always_def reply_200_def raise_for_status_def
        response_json_def dict_get_def dict_get_default_def)

text \<open>
  Claim C5, amended. For a barcode lookup with a 2xx response that decodes to a
  dictionary: when the \<open>product\<close> field is absent or null, the worker emits the
  finished signal with no products, and the slot shows zero rows and the count 0 without
  raising; when the \<open>product\<close> field is truthy (such as a non-empty product record),
  the worker emits the finished signal with exactly that product in a one-element list.
\<close>

theorem barcode_lookup_result:
  "(search_type w = ''barcode'' \<and> net (worker_request w) = Inr resp \<and>
    200 \<le> status_code resp \<and> status_code resp < 300 \<and> json_result resp = Inr (JObj d) \<and>
    present d ''product'' = None \<longrightarrow>
    fst (run net w sent) = Finished [(''products'', JList [])] \<and>
    deliver On_barcode_search_finished (fst (run net w sent)) s =
      (None, s\<lparr>barcode_search_btn_enabled := True, barcode_progress_visible := False,
               barcode_table := [], status_bar := Found 0\<rparr>)) \<and>
   (search_type w = ''barcode'' \<and> net' (worker_request w) = Inr resp' \<and>
    200 \<le> status_code resp' \<and> status_code resp' < 300 \<and> json_result resp' = Inr (JObj d') \<and>
    truthy (dict_get d' ''product'') \<longrightarrow>
    fst (run net' w sent) = Finished [(''products'', JList [dict_get d' ''product''])])"
proof (rule conjI; rule impI; elim conjE)
  assume a: "search_type w = ''barcode''" "net (worker_request w) = Inr resp"
    "200 \<le> status_code resp" "status_code resp < 300" "json_result resp = Inr (JObj d)"
    "present d ''product'' = None"
  from a(6) have n: "dict_get d ''product'' = JNull"
    by (simp add: dict_get_present split: if_splits)
  have r: "run net w sent = (Finished [(''products'', JList [])], sent @ [worker_request w])"
    using run_barcode_dict [of w net resp d sent] a raise_for_status_2xx [of resp]
    by (simp add: n)
  show "fst (run net w sent) = Finished [(''products'', JList [])] \<and>
    deliver On_barcode_search_finished (fst (run net w sent)) s =
      (None, s\<lparr>barcode_search_btn_enabled := True, barcode_progress_visible := False,
               barcode_table := [], status_bar := Found 0\<rparr>)"
    by (simp add: r deliver_def on_barcode_search_finished_no_products dict_get_default_def)
next
  assume a: "search_type w = ''barcode''" "net' (worker_request w) = Inr resp'"
    "200 \<le> status_code resp'" "status_code resp' < 300" "json_result resp' = Inr (JObj d')"
    "truthy (dict_get d' ''product'')"
  show "fst (run net' w sent) = Finished [(''products'', JList [dict_get d' ''product''])]"
    using run_barcode_dict [of w net' resp' d' sent] a raise_for_status_2xx [of resp']
    by simp
qed

theorem barcode_lookup_result_witness:
  "(present [(''product'', JNull)] ''product'' = None \<and>
    truthy (dict_get [(''product'', JObj [(''code'', JStr ''123'')])] ''product'')) \<and>
   fst (run (always (reply_200 (JObj [(''product'', JNull)])))
          \<lparr>search_type = ''barcode'', query = ''123''\<rparr> []) = Finished [(''products'', JList [])] \<and>
   deliver On_barcode_search_finished
     (fst (run (always (reply_200 (JObj [(''product'', JNull)])))
             \<lparr>search_type = ''barcode'', query = ''123''\<rparr> [])) initUI =
     (None, initUI\<lparr>barcode_search_btn_enabled := True, barcode_progress_visible := False,
                   barcode_table := [], status_bar := Found 0\<rparr>) \<and>
   fst (run (always (reply_200 (JObj [(''product'', JObj [(''code'', JStr ''123'')])])))
          \<lparr>search_type = ''barcode'', query = ''123''\<rparr> []) =
     Finished [(''products'', JList [JObj [(''code'', JStr ''123'')]])]"
proof -
  have h: "present [(''product'', JNull)] ''product'' = None"
    "truthy (dict_get [(''product'', JObj [(''code'', JStr ''123'')])] ''product'')"
    "dict_get [(''product'', JObj [(''code'', JStr ''123'')])] ''product'' = JObj [(''code'', JStr ''123'')]"
    "always (reply_200 (JObj [(''product'', JNull)]))
       (worker_request \<lparr>search_type = ''barcode'', query = ''123''\<rparr>) =
     Inr \<lparr>status_code = 200, http_error = [], json_result = Inr (JObj [(''product'', JNull)])\<rparr>"
    "always (reply_200 (JObj [(''product'', JObj [(''code'', JStr ''123'')])]))
       (worker_request \<lparr>search_type = ''barcode'', query = ''123''\<rparr>) =
     Inr \<lparr>status_code = 200, http_error = [],
          json_result = Inr (JObj [(''product'', JObj [(''code'', JStr ''123'')])])\<rparr>"
    by (simp_all add: always_def reply_200_def present_def dict_get_def dict_get_default_def)
  show ?thesis
    using h barcode_lookup_result
      [where w = "\<lparr>search_type = ''barcode'', query = ''123''\<rparr>"
         and net = "always (reply_200 (JObj [(''product'', JNull)]))"
         and resp = "\<lparr>status_code = 200, http_error = [],
                       json_result = Inr (JObj [(''product'', JNull)])\<rparr>"
         and d = "[(''product'', JNull)]"
         and net' = "always (reply_200 (JObj [(''product'', JObj [(''code'', JStr ''123'')])]))"
         and resp' = "\<lparr>status_code = 200, http_error = [],
                       json_result = Inr (JObj [(''product'', JObj [(''code'', JStr ''123'')])])\<rparr>"
         and d' = "[(''product'', JObj [(''code'', JStr ''123'')])]"
         and sent = "[]" and s = initUI]
    by auto
qed

text \<open>
  Claim C10. For a barcode lookup with a 2xx response whose \<open>product\<close> field is present
  and not null but falsy (an empty dictionary, 0, an empty string, an empty list,
  \<open>False\<close>), the worker reports success with no products and the slot shows zero rows,
  exactly as for a body without the \<open>product\<close> field and for a body whose
  \<open>product\<close> is null: the test is the truth value of the field.
\<close>

theorem falsy_product_is_no_product:
  "search_type w = ''barcode'' \<and> net (worker_request w) = Inr resp \<and>
   200 \<le> status_code resp \<and> status_code resp < 300 \<and> json_result resp = Inr (JObj d) \<and>
   map_of d ''product'' = Some p \<and> p \<noteq> JNull \<and> \<not> truthy p \<longrightarrow>
   fst (run net w sent) = Finished [(''products'', JList [])] \<and>
   deliver On_barcode_search_finished (fst (run net w sent)) s =
     (None, s\<lparr>barcode_search_btn_enabled := True, barcode_progress_visible := False,
              barcode_table := [], status_bar := Found 0\<rparr>) \<and>
   fst (run net w sent) =
     fst (run (always (Inr (resp\<lparr>json_result := Inr (JObj [])\<rparr>))) w sent) \<and>
   fst (run net w sent) =
     fst (run (always (Inr (resp\<lparr>json_result := Inr (JObj [(''product'', JNull)])\<rparr>))) w sent)"
proof (intro impI, elim conjE)
  assume a: "search_type w = ''barcode''" "net (worker_request w) = Inr resp"
    "200 \<le> status_code resp" "status_code resp < 300" "json_result resp = Inr (JObj d)"
    "map_of d ''product'' = Some p" "p \<noteq> JNull" "\<not> truthy p"
  have g: "dict_get d ''product'' = p"
    using a(6) by (simp add: dict_get_def dict_get_default_def)
  have ok: "raise_for_status resp = None"
    using a(3,4) by (rule raise_for_status_2xx)
  have r: "run net w sent = (Finished [(''products'', JList [])], sent @ [worker_request w])"
    using run_barcode_dict [of w net resp d sent] a ok by (simp add: g)
  have ok': "raise_for_status (resp\<lparr>json_result := x\<rparr>) = None" for x
    using a(3,4) by (simp add: raise_for_status_def)
  have r1: "run (always (Inr (resp\<lparr>json_result := Inr (JObj [])\<rparr>))) w sent =
              (Finished [(''products'', JList [])], sent @ [worker_request w])"
    using run_barcode_dict [of w "always (Inr (resp\<lparr>json_result := Inr (JObj [])\<rparr>))"
                               "resp\<lparr>json_result := Inr (JObj [])\<rparr>" "[]" sent] a(1) ok'
    by (simp add: always_def dict_get_def dict_get_default_def)
  have r2: "run (always (Inr (resp\<lparr>json_result := Inr (JObj [(''product'', JNull)])\<rparr>))) w sent =
              (Finished [(''products'', JList [])], sent @ [worker_request w])"
    using run_barcode_dict [of w "always (Inr (resp\<lparr>json_result := Inr (JObj [(''product'', JNull)])\<rparr>))"
                               "resp\<lparr>json_result := Inr (JObj [(''product'', JNull)])\<rparr>"
                               "[(''product'', JNull)]" sent] a(1) ok'
    by (simp add: always_def dict_get_def dict_get_default_def)
  show "fst (run net w sent) = Finished [(''products'', JList [])] \<and>
   deliver On_barcode_search_finished (fst (run net w sent)) s =
     (None, s\<lparr>barcode_search_btn_enabled := True, barcode_progress_visible := False,
              barcode_table := [], status_bar := Found 0\<rparr>) \<and>
   fst (run net w sent) =
     fst (run (always (Inr (resp\<lparr>json_result := Inr (JObj [])\<rparr>))) w sent) \<and>
   fst (run net w sent) =
     fst (run (always (Inr (resp\<lparr>json_result := Inr (JObj [(''product'', JNull)])\<rparr>))) w sent)"
    by (simp add: r r1 r2 deliver_def on_barcode_search_finished_no_products dict_get_default_def)
qed

theorem falsy_product_is_no_product_witness:
  "(map_of [(''product'', JObj [])] ''product'' = Some (JObj []) \<and> JObj [] \<noteq> JNull \<and>
    \<not> truthy (JObj [])) \<and>
   fst (run (always (reply_200 (JObj [(''product'', JObj [])])))
          \<lparr>search_type = ''barcode'', query = ''123''\<rparr> []) = Finished [(''products'', JList [])] \<and>
   deliver On_barcode_search_finished
     (fst (run (always (reply_200 (JObj [(''product'', JObj [])])))
             \<lparr>search_type = ''barcode'', query = ''123''\<rparr> [])) initUI =
     (None, initUI\<lparr>barcode_search_btn_enabled := True, barcode_progress_visible := False,
                   barcode_table := [], status_bar := Found 0\<rparr>)"
proof -
  have h: "map_of [(''product'', JObj [])] ''product'' = Some (JObj [])" "JObj [] \<noteq> JNull"
    "\<not> truthy (JObj [])"
    "always (reply_200 (JObj [(''product'', JObj [])]))
       (worker_request \<lparr>search_type = ''barcode'', query = ''123''\<rparr>) =
     Inr \<lparr>status_code = 200, http_error = [], json_result = Inr (JObj [(''product'', JObj [])])\<rparr>"
    by (simp_all add: always_def reply_200_def)
  show ?thesis
    using h falsy_product_is_no_product
      [where w = "\<lparr>search_type = ''barcode'', query = ''123''\<rparr>"
         and net = "always (reply_200 (JObj [(''product'', JObj [])]))"
         and resp = "\<lparr>status_code = 200, http_error = [],
                       json_result = Inr (JObj [(''product'', JObj [])])\<rparr>"
         and d = "[(''product'', JObj [])]" and p = "JObj []" and sent = "[]" and s = initUI]
    by auto
qed




text \<open>
  Claim C9. After every terminal outcome of a search, the finished signal as well as the
  error signal, the slot that receives it has cleared the in-progress indicator of its
  tab: the progress bar is hidden and the search button is enabled, whatever else the
  slot does afterwards (the indicator is reset before the table is filled, and
  \<^verbatim>\<open>on_search_error\<close> resets the indicators of both tabs). In particular a transport
  timeout, a \<open>RequestException\<close>, is reported with the network-error prefix and leaves
  the indicators cleared.
\<close>

theorem indicator_cleared_after_every_outcome:
  "(case sl of
      On_barcode_search_finished \<Rightarrow>
        barcode_search_btn_enabled (snd (deliver sl sig s)) \<and>
        \<not> barcode_progress_visible (snd (deliver sl sig s))
    | On_name_search_finished \<Rightarrow>
        name_search_btn_enabled (snd (deliver sl sig s)) \<and>
        \<not> name_progress_visible (snd (deliver sl sig s))) \<and>
   (net (worker_request w) = Inl (RequestException m) \<longrightarrow>
      fst (run net w sent) = Error (network_error_prefix @ m) \<and>
      barcode_search_btn_enabled (snd (deliver sl (fst (run net w sent)) s)) \<and>
      \<not> barcode_progress_visible (snd (deliver sl (fst (run net w sent)) s)) \<and>
      name_search_btn_enabled (snd (deliver sl (fst (run net w sent)) s)) \<and>
      \<not> name_progress_visible (snd (deliver sl (fst (run net w sent)) s)))"
proof (rule conjI)
  show "case sl of
      On_barcode_search_finished \<Rightarrow>
        barcode_search_btn_enabled (snd (deliver sl sig s)) \<and>
        \<not> barcode_progress_visible (snd (deliver sl sig s))
    | On_name_search_finished \<Rightarrow>
        name_search_btn_enabled (snd (deliver sl sig s)) \<and>
        \<not> name_progress_visible (snd (deliver sl sig s))"
  proof (cases sig)
    case (Finished d)
    then show ?thesis
      using on_barcode_search_finished_clears [of s d] on_name_search_finished_clears [of s d]
      by (cases sl) (simp_all add: deliver_def)
  next
    case (Error msg)
    then show ?thesis
      using on_search_error_clears [of s msg]
      by (cases sl) (simp_all add: deliver_def)
  qed
next
  show "net (worker_request w) = Inl (RequestException m) \<longrightarrow>
      fst (run net w sent) = Error (network_error_prefix @ m) \<and>
      barcode_search_btn_enabled (snd (deliver sl (fst (run net w sent)) s)) \<and>
      \<not> barcode_progress_visible (snd (deliver sl (fst (run net w sent)) s)) \<and>
      name_search_btn_enabled (snd (deliver sl (fst (run net w sent)) s)) \<and>
      \<not> name_progress_visible (snd (deliver sl (fst (run net w sent)) s))"
  proof
    assume "net (worker_request w) = Inl (RequestException m)"
    then have "fst (run net w sent) = Error (network_error_prefix @ m)"
      by (simp add: run_transport_failure except_clauses_def)
    then show "fst (run net w sent) = Error (network_error_prefix @ m) \<and>
      barcode_search_btn_enabled (snd (deliver sl (fst (run net w sent)) s)) \<and>
      \<not> barcode_progress_visible (snd (deliver sl (fst (run net w sent)) s)) \<and>
      name_search_btn_enabled (snd (deliver sl (fst (run net w sent)) s)) \<and>
      \<not> name_progress_visible (snd (deliver sl (fst (run net w sent)) s))"
      using on_search_error_clears [of s "network_error_prefix @ m"]
      by (simp add: deliver_def)
  qed
qed

theorem indicator_cleared_after_every_outcome_witness:
  "(\<not> barcode_search_btn_enabled (fst (search_by_barcode (initUI\<lparr>barcode_input := ''123''\<rparr>))) \<and>
    barcode_progress_visible (fst (search_by_barcode (initUI\<lparr>barcode_input := ''123''\<rparr>))) \<and>
    always (Inl (RequestException ''timed out''))
      (worker_request \<lparr>search_type = ''barcode'', query = ''123''\<rparr>) =
      Inl (RequestException ''timed out'')) \<and>
   fst (run (always (Inl (RequestException ''timed out'')))
          \<lparr>search_type = ''barcode'', query = ''123''\<rparr> []) =
     Error (network_error_prefix @ ''timed out'') \<and>
   barcode_search_btn_enabled
     (snd (deliver On_barcode_search_finished
             (fst (run (always (Inl (RequestException ''timed out'')))
                     \<lparr>search_type = ''barcode'', query = ''123''\<rparr> []))
             (fst (search_by_barcode (initUI\<lparr>barcode_input := ''123''\<rparr>))))) \<and>
   \<not> barcode_progress_visible
     (snd (deliver On_barcode_search_finished
             (fst (run (always (Inl (RequestException ''timed out'')))
                     \<lparr>search_type = ''barcode'', query = ''123''\<rparr> []))
             (fst (search_by_barcode (initUI\<lparr>barcode_input := ''123''\<rparr>)))))"
proof -
  have h: "\<not> barcode_search_btn_enabled (fst (search_by_barcode (initUI\<lparr>barcode_input := ''123''\<rparr>)))"
    "barcode_progress_visible (fst (search_by_barcode (initUI\<lparr>barcode_input := ''123''\<rparr>)))"
    "always (Inl (RequestException ''timed out''))
      (worker_request \<lparr>search_type = ''barcode'', query = ''123''\<rparr>) =
      Inl (RequestException ''timed out'')"
    by (simp_all add: search_by_barcode_def strip_123 always_def Let_def)
  show ?thesis
    using h indicator_cleared_after_every_outcome
      [where sl = On_barcode_search_finished
         and sig = "Error []"
         and s = "fst (search_by_barcode (initUI\<lparr>barcode_input := ''123''\<rparr>))"
         and net = "always (Inl (RequestException ''timed out''))"
         and w = "\<lparr>search_type = ''barcode'', query = ''123''\<rparr>"
         and m = "''timed out''" and sent = "[]"]
    by auto
qed

section \<open>Two searches on one slot\<close>












lemma two_name_starts_123_456:
  "fst (search_by_name
          ((fst (search_by_name (initUI\<lparr>name_input := ''123''\<rparr>)))
             \<lparr>name_input := ''456''\<rparr>)) =
     initUI\<lparr>name_input := ''456'', name_search_btn_enabled := False,
            name_progress_visible := True, name_progress_range := (0, 0),
            status_bar := Searching_name,
            search_worker := Some \<lparr>search_type = ''name'', query = ''456''\<rparr>\<rparr>"
  by (simp add: search_by_name_def strip_123 strip_456 Let_def initUI_def)




end
